theory Spec2Isabelle
  imports Complex_Main "HOL-Library.Word"
begin

unbundle bit_operations_syntax

section \<open>VoiceEquation: the recorder and the controller of app.py\<close>

text \<open>
  The program records microphone audio, writes it to a temporary wave file, has a local
  speech model transcribe the file and a remote chat model turn the transcript into LaTeX.
  The speech model, the chat endpoint, the audio device, the clock and the name of the
  temporary file are outside the program: each is an argument of the function that
  consults it. Everything the program mutates is a field of a record that the functions
  take and return.
\<close>

subsection \<open>Exceptions\<close>

text \<open>
  Both handlers of the controller catch \<^verbatim>\<open>Exception\<close> and show \<^verbatim>\<open>str(e)\<close>, so an
  exception is its kind and its message. \<open>DeviceError\<close> stands for what sounddevice
  raises, \<open>TranscriptionError\<close> for what the speech model raises, \<open>ServiceError\<close> for
  what the chat client raises; \<open>AttributeError\<close> is Python's own.
\<close>

datatype error =
    DeviceError string
  | AttributeError string
  | TranscriptionError string
  | ServiceError string

fun str :: "error \<Rightarrow> string" where
  "str (DeviceError m) = m"
| "str (AttributeError m) = m"
| "str (TranscriptionError m) = m"
| "str (ServiceError m) = m"

subsection \<open>The world outside the two objects\<close>

text \<open>
  A stream object of sounddevice is created by the constructor, started by \<^verbatim>\<open>start()\<close>
  and released by \<^verbatim>\<open>stop()\<close> and \<^verbatim>\<open>close()\<close>. The stream objects live in a store:
  a list, a stream's handle being its index. \<^verbatim>\<open>stop\<close> and \<^verbatim>\<open>close\<close> are called with their
  default \<^verbatim>\<open>ignore_errors=True\<close> and do not raise.
\<close>

datatype stream_status = Created | Started | Closed

text \<open>The microphone delivers \<^verbatim>\<open>int16\<close> samples, one per frame (\<^verbatim>\<open>channels=1\<close>).\<close>

type_synonym sample = "16 word"

text \<open>What \<^verbatim>\<open>wave.open(name, 'wb')\<close> leaves on disk once its block is left.\<close>

record wav_file =
  nchannels :: nat
  sampwidth :: nat
  framerate :: nat
  comptype :: string
  frames :: "8 word list"

record world =
  streams :: "stream_status list"
  clipboard :: string
  dialogs :: "(string \<times> string) list"
  files :: "string \<rightharpoonup> wav_file"

text \<open>\<^verbatim>\<open>messagebox.showerror(title, message)\<close>: the dialogs shown, oldest first.\<close>

definition showerror :: "string \<Rightarrow> string \<Rightarrow> world \<Rightarrow> world" where
  "showerror title message w = w\<lparr>dialogs := dialogs w @ [(title, message)]\<rparr>"

text \<open>The sessions open on the audio device: the streams that are started.\<close>

definition open_sessions :: "world \<Rightarrow> nat" where
  "open_sessions w = length (filter (\<lambda>s. s = Started) (streams w))"

text \<open>
  What the environment answers during one user action: whether the input stream opens
  (the constructor may raise, and so may \<^verbatim>\<open>start()\<close>), the clock, the name of the
  temporary file, the speech model on a wave file, and the chat endpoint on the user turn
  (with the fixed system prompt and model name), giving \<^verbatim>\<open>choices[0].message.content\<close>.
\<close>

datatype open_result = OpenOk | OpenFails error | StartFails error

record env =
  open_stream :: open_result
  now :: real
  tmp_name :: string
  transcribe :: "wav_file \<Rightarrow> error + string"
  chat :: "string \<Rightarrow> error + string"

subsection \<open>AudioRecorder\<close>

text \<open>
  \<open>stream\<close> is \<open>None\<close> until \<^verbatim>\<open>self.stream\<close> is first assigned: the constructor does not
  set the attribute. The queue the constructor creates is never used and is left out.
\<close>

record AudioRecorder =
  recording :: bool
  audio_data :: "sample list"
  stream :: "nat option"

definition AudioRecorder_init :: AudioRecorder where
  "AudioRecorder_init = \<lparr>recording = False, audio_data = [], stream = None\<rparr>"

text \<open>
  \<^verbatim>\<open>callback(indata, frames, time, status)\<close> reads only \<^verbatim>\<open>indata\<close>, a block of frames;
  \<^verbatim>\<open>extend\<close> appends one entry per frame.
\<close>

definition callback :: "AudioRecorder \<Rightarrow> sample list \<Rightarrow> AudioRecorder" where
  "callback r indata =
     (if recording r then r\<lparr>audio_data := audio_data r @ indata\<rparr> else r)"

text \<open>The flag and the buffer are set before the stream is opened.\<close>

fun AudioRecorder_start_recording ::
  "open_result \<Rightarrow> AudioRecorder \<times> world \<Rightarrow> (error + unit) \<times> AudioRecorder \<times> world" where
  "AudioRecorder_start_recording opn (r, w) =
     (let r1 = r\<lparr>recording := True, audio_data := []\<rparr> in
      case opn of
        OpenFails e \<Rightarrow> (Inl e, r1, w)
      | StartFails e \<Rightarrow>
          (Inl e, r1\<lparr>stream := Some (length (streams w))\<rparr>,
           w\<lparr>streams := streams w @ [Created]\<rparr>)
      | OpenOk \<Rightarrow>
          (Inr (), r1\<lparr>stream := Some (length (streams w))\<rparr>,
           w\<lparr>streams := streams w @ [Started]\<rparr>))"

definition no_stream_attribute :: string where
  "no_stream_attribute =
     [CHR 0x27] @ ''AudioRecorder'' @ [CHR 0x27] @ '' object has no attribute ''
       @ [CHR 0x27] @ ''stream'' @ [CHR 0x27]"

fun AudioRecorder_stop_recording ::
  "AudioRecorder \<times> world \<Rightarrow> (error + sample list) \<times> AudioRecorder \<times> world" where
  "AudioRecorder_stop_recording (r, w) =
     (let r1 = r\<lparr>recording := False\<rparr> in
      case stream r1 of
        None \<Rightarrow> (Inl (AttributeError no_stream_attribute), r1, w)
      | Some i \<Rightarrow> (Inr (audio_data r1), r1, w\<lparr>streams := (streams w)[i := Closed]\<rparr>))"

subsection \<open>text\_to\_latex\<close>

definition startswith :: "string \<Rightarrow> string \<Rightarrow> bool" where
  "startswith s p = (take (length p) s = p)"

definition text_to_latex :: "(string \<Rightarrow> error + string) \<Rightarrow> string \<Rightarrow> error + string" where
  "text_to_latex cht text =
     (case cht text of
        Inl e \<Rightarrow> Inl e
      | Inr latex_code \<Rightarrow>
          Inr (if startswith latex_code ''LaTeX code: ''
               then drop (length ''LaTeX code: '') latex_code
               else latex_code))"

subsection \<open>MainApplication\<close>

record button =
  btn_text :: string
  bootstyle :: string

definition SUCCESS :: string where "SUCCESS = ''success''"
definition DANGER :: string where "DANGER = ''danger''"

text \<open>
  The controller's own flag is \<open>app_recording\<close> (\<^verbatim>\<open>self.recording\<close> of the window; the
  recorder has a flag of the same name). \<open>trans_text\<close> and \<open>latex_text\<close> are the contents
  of the two text widgets, \<open>status_var\<close> the status line.
\<close>

record MainApplication =
  recorder :: AudioRecorder
  app_recording :: bool
  start_time :: "real option"
  transcribed_text :: string
  latex_code :: string
  record_btn :: button
  status_var :: string
  trans_text :: string
  latex_text :: string

definition MainApplication_init :: MainApplication where
  "MainApplication_init =
     \<lparr>recorder = AudioRecorder_init, app_recording = False, start_time = None,
      transcribed_text = [], latex_code = [],
      record_btn = \<lparr>btn_text = ''Start Recording'', bootstyle = SUCCESS\<rparr>,
      status_var = [], trans_text = [], latex_text = []\<rparr>"

definition world_init :: "string \<Rightarrow> (string \<rightharpoonup> wav_file) \<Rightarrow> world" where
  "world_init clip fs = \<lparr>streams = [], clipboard = clip, dialogs = [], files = fs\<rparr>"

fun start_recording :: "env \<Rightarrow> MainApplication \<times> world \<Rightarrow> MainApplication \<times> world" where
  "start_recording ev (a, w) =
     (case AudioRecorder_start_recording (open_stream ev) (recorder a, w) of
        (Inr u, r, w1) \<Rightarrow>
          (a\<lparr>recorder := r, app_recording := True, start_time := Some (now ev),
             record_btn := (record_btn a)\<lparr>btn_text := ''Stop Recording'', bootstyle := DANGER\<rparr>,
             status_var := ''Recording...''\<rparr>, w1)
      | (Inl e, r, w1) \<Rightarrow>
          (a\<lparr>recorder := r\<rparr>,
           showerror ''Error'' (''Failed to start recording: '' @ str e) w1))"

text \<open>\<^verbatim>\<open>tobytes()\<close> of an \<^verbatim>\<open>int16\<close> array: two bytes a sample, low byte first.\<close>

definition tobytes :: "sample list \<Rightarrow> 8 word list" where
  "tobytes xs = concat (map (\<lambda>x. [ucast x, ucast (drop_bit 8 x)]) xs)"

definition write_wav :: "sample list \<Rightarrow> wav_file" where
  "write_wav audio =
     \<lparr>nchannels = 1, sampwidth = 2, framerate = 16000, comptype = ''NONE'',
      frames = tobytes audio\<rparr>"

text \<open>The handler of \<^verbatim>\<open>stop_recording\<close>: one dialog, then the status line.\<close>

definition processing_failed ::
  "error \<Rightarrow> MainApplication \<times> world \<Rightarrow> MainApplication \<times> world" where
  "processing_failed e s =
     ((fst s)\<lparr>status_var := ''Error occurred''\<rparr>,
      showerror ''Error'' (''Processing failed: '' @ str e) (snd s))"

text \<open>
  What the controller holds from the moment the recorder has returned the buffer and
  while the pipeline runs (the three assignments after \<^verbatim>\<open>self.recorder.stop_recording()\<close>).
\<close>

definition begin_processing :: "AudioRecorder \<Rightarrow> MainApplication \<Rightarrow> MainApplication" where
  "begin_processing r a =
     a\<lparr>recorder := r, app_recording := False,
       record_btn := (record_btn a)\<lparr>btn_text := ''Start Recording'', bootstyle := SUCCESS\<rparr>,
       status_var := ''Processing audio...''\<rparr>"

text \<open>
  The body of the outer \<^verbatim>\<open>with\<close> block and the \<^verbatim>\<open>os.unlink\<close> after it. An exception
  leaves the block for the handler, past the \<^verbatim>\<open>os.unlink\<close>.
\<close>

definition process_audio ::
  "env \<Rightarrow> sample list \<Rightarrow> MainApplication \<times> world \<Rightarrow> MainApplication \<times> world" where
  "process_audio ev audio s =
     (let a1 = fst s;
          w2 = (snd s)\<lparr>files := (files (snd s))(tmp_name ev \<mapsto> write_wav audio)\<rparr>
      in case transcribe ev (write_wav audio) of
           Inl e \<Rightarrow> processing_failed e (a1, w2)
         | Inr text \<Rightarrow>
             (let a2 = a1\<lparr>transcribed_text := text\<rparr> in
              case text_to_latex (chat ev) text of
                Inl e \<Rightarrow> processing_failed e (a2, w2)
              | Inr latex \<Rightarrow>
                  (a2\<lparr>latex_code := latex, trans_text := text, latex_text := latex,
                      status_var := ''Ready''\<rparr>,
                   w2\<lparr>files := (files w2)(tmp_name ev := None)\<rparr>)))"

fun stop_recording :: "env \<Rightarrow> MainApplication \<times> world \<Rightarrow> MainApplication \<times> world" where
  "stop_recording ev (a, w) =
     (case AudioRecorder_stop_recording (recorder a, w) of
        (Inl e, r, w1) \<Rightarrow> processing_failed e (a\<lparr>recorder := r\<rparr>, w1)
      | (Inr audio, r, w1) \<Rightarrow> process_audio ev audio (begin_processing r a, w1))"

definition toggle_recording ::
  "env \<Rightarrow> MainApplication \<times> world \<Rightarrow> MainApplication \<times> world" where
  "toggle_recording ev s =
     (if \<not> app_recording (fst s) then start_recording ev s else stop_recording ev s)"

fun copy_text :: "MainApplication \<times> world \<Rightarrow> MainApplication \<times> world" where
  "copy_text (a, w) =
     (a\<lparr>status_var := ''Text copied to clipboard!''\<rparr>, w\<lparr>clipboard := transcribed_text a\<rparr>)"

fun copy_latex :: "MainApplication \<times> world \<Rightarrow> MainApplication \<times> world" where
  "copy_latex (a, w) =
     (a\<lparr>status_var := ''LaTeX copied to clipboard!''\<rparr>, w\<lparr>clipboard := latex_code a\<rparr>)"

text \<open>
  \<^verbatim>\<open>update_ui\<close>, the timer: the argument is the elapsed whole seconds as printed.
\<close>

fun update_ui :: "string \<Rightarrow> MainApplication \<times> world \<Rightarrow> MainApplication \<times> world" where
  "update_ui duration (a, w) =
     (if app_recording a
      then (a\<lparr>status_var := ''Recording... '' @ duration @ '' seconds''\<rparr>, w)
      else (a, w))"

subsection \<open>Runs of the application\<close>

text \<open>
  What can happen to the running window: the button or the space key, the two copy
  actions, the timer, and a block of frames from the audio device, which calls the
  callback only while a stream is started.
\<close>

datatype event =
    Toggle env
  | CopyText
  | CopyLatex
  | Timer string
  | Frames "sample list"

fun step :: "event \<Rightarrow> MainApplication \<times> world \<Rightarrow> MainApplication \<times> world" where
  "step (Toggle ev) s = toggle_recording ev s"
| "step CopyText s = copy_text s"
| "step CopyLatex s = copy_latex s"
| "step (Timer d) s = update_ui d s"
| "step (Frames indata) s =
     (if 0 < open_sessions (snd s)
      then ((fst s)\<lparr>recorder := callback (recorder (fst s)) indata\<rparr>, snd s)
      else s)"

fun run :: "event list \<Rightarrow> MainApplication \<times> world \<Rightarrow> MainApplication \<times> world" where
  "run [] s = s"
| "run (e # es) s = run es (step e s)"

subsection \<open>Sample inputs\<close>

text \<open>
  An environment whose speech model and chat endpoint answer the same whatever they are
  asked, a world with no stream, no dialog and no file, and the window after one
  successful press of the record button.
\<close>

definition env_of :: "open_result \<Rightarrow> (error + string) \<Rightarrow> (error + string) \<Rightarrow> env" where
  "env_of opn tr ch =
     \<lparr>open_stream = opn, now = 0, tmp_name = ''tmp.wav'',
      transcribe = (\<lambda>f. tr), chat = (\<lambda>t. ch)\<rparr>"

definition quiet_world :: world where
  "quiet_world = world_init [] Map.empty"

definition recording_state :: "MainApplication \<times> world" where
  "recording_state =
     start_recording (env_of OpenOk (Inr []) (Inr [])) (MainApplication_init, quiet_world)"

text \<open>
  The window of \<open>recording_state\<close> at the moment its recorder has returned the buffer
  and the pipeline is about to run, and the same recording window showing and storing
  the results of an earlier session.
\<close>

definition processing_state :: "MainApplication \<times> world" where
  "processing_state =
     (case AudioRecorder_stop_recording (recorder (fst recording_state), snd recording_state) of
        (res, r, w1) \<Rightarrow> (begin_processing r (fst recording_state), w1))"

definition shown_state :: "MainApplication \<times> world" where
  "shown_state =
     ((fst recording_state)\<lparr>transcribed_text := ''x squared'', latex_code := ''x^2'',
         trans_text := ''x squared'', latex_text := ''x^2''\<rparr>, snd recording_state)"

subsection \<open>The invariant of a run\<close>

text \<open>
  While the controller's flag is set, the recorder's stream is a started stream of the
  store and it is the only one; while the flag is clear, no stream is started.
\<close>

definition session_inv :: "MainApplication \<times> world \<Rightarrow> bool" where
  "session_inv s =
     (if app_recording (fst s)
      then (case stream (recorder (fst s)) of
              None \<Rightarrow> False
            | Some i \<Rightarrow> i < length (streams (snd s)) \<and> streams (snd s) ! i = Started)
           \<and> open_sessions (snd s) = 1
      else open_sessions (snd s) = 0)"

section \<open>The recorder's buffer\<close>

lemma deliver_armed:
  "recording r \<Longrightarrow> foldl callback r chunks = r\<lparr>audio_data := audio_data r @ concat chunks\<rparr>"
  by (induction chunks arbitrary: r) (simp_all add: callback_def)

lemma deliver_disarmed: "\<not> recording r \<Longrightarrow> foldl callback r chunks = r"
  by (induction chunks) (simp_all add: callback_def)

text \<open>
  Claim C1. A session is \<open>start_recording\<close> with the device opening, then any number
  of blocks of frames handed to \<open>callback\<close>, then \<open>stop_recording\<close>. Whatever the
  recorder held before (so also after any earlier sessions), the buffer that
  \<open>stop_recording\<close> returns is the blocks in the order delivered, one entry per frame:
  its length is the number of frames delivered, and 16000 when 16000 frames were
  delivered.
\<close>

theorem arm_deliver_disarm_returns_all_frames:
  "(case AudioRecorder_start_recording OpenOk (r, w) of
      (res, r1, w1) \<Rightarrow>
        res = Inr () \<and>
        fst (AudioRecorder_stop_recording (foldl callback r1 chunks, w1)) = Inr (concat chunks) \<and>
        length (concat chunks) = sum_list (map length chunks) \<and>
        (sum_list (map length chunks) = 16000 \<longrightarrow>
           (\<exists>buf. fst (AudioRecorder_stop_recording (foldl callback r1 chunks, w1)) = Inr buf
                  \<and> length buf = 16000)))"
  by (simp add: deliver_armed length_concat)

theorem arm_deliver_disarm_returns_all_frames_witness:
  "sum_list (map length [replicate 16000 (0::sample)]) = 16000 \<and>
   (\<exists>buf. fst (AudioRecorder_stop_recording
            (foldl callback
               (AudioRecorder_init\<lparr>recording := True, audio_data := [], stream := Some 0\<rparr>)
               [replicate 16000 0],
             quiet_world\<lparr>streams := [Started]\<rparr>)) = Inr buf
          \<and> length buf = 16000)"
  using arm_deliver_disarm_returns_all_frames
          [where r = AudioRecorder_init and w = quiet_world and chunks = "[replicate 16000 0]"]
  by (simp add: quiet_world_def world_init_def)

section \<open>At most one session\<close>

lemma count_started_update:
  "i < length xs \<Longrightarrow> xs ! i = Started \<Longrightarrow>
   length (filter (\<lambda>s. s = Started) (xs[i := Closed])) = length (filter (\<lambda>s. s = Started) xs) - 1"
proof (induction xs arbitrary: i)
  case Nil
  then show ?case by simp
next
  case (Cons x xs)
  show ?case
  proof (cases i)
    case 0
    with Cons.prems show ?thesis by simp
  next
    case (Suc k)
    with Cons.prems have k: "k < length xs" "xs ! k = Started" by simp_all
    then have "Started \<in> set xs" by (metis nth_mem)
    then have "0 < length (filter (\<lambda>s. s = Started) xs)"
      by (simp add: filter_empty_conv)
    with Cons.IH [OF k] Suc show ?thesis by simp
  qed
qed

lemma process_audio_frame:
  "app_recording (fst (process_audio ev audio s)) = app_recording (fst s) \<and>
   recorder (fst (process_audio ev audio s)) = recorder (fst s) \<and>
   streams (snd (process_audio ev audio s)) = streams (snd s)"
  by (simp add: process_audio_def processing_failed_def showerror_def Let_def
           split: sum.splits)

lemma start_recording_inv:
  "session_inv (a, w) \<Longrightarrow> \<not> app_recording a \<Longrightarrow> session_inv (start_recording ev (a, w))"
  by (cases "open_stream ev")
     (simp_all add: session_inv_def open_sessions_def showerror_def nth_append)

lemma stop_recording_inv:
  assumes "session_inv (a, w)" "app_recording a"
  shows "session_inv (stop_recording ev (a, w))"
proof -
  from assms obtain i where i: "stream (recorder a) = Some i" "i < length (streams w)"
      "streams w ! i = Started" "open_sessions w = 1"
    by (auto simp: session_inv_def split: option.splits)
  let ?w1 = "w\<lparr>streams := (streams w)[i := Closed]\<rparr>"
  let ?r = "(recorder a)\<lparr>recording := False\<rparr>"
  have stop: "stop_recording ev (a, w) =
      process_audio ev (audio_data (recorder a)) (begin_processing ?r a, ?w1)"
    using i by simp
  have "open_sessions ?w1 = 0"
    using i count_started_update [of i "streams w"] by (simp add: open_sessions_def)
  then show ?thesis
    unfolding stop session_inv_def
    by (simp add: process_audio_frame open_sessions_def begin_processing_def)
qed

lemma step_inv: "session_inv s \<Longrightarrow> session_inv (step e s)"
proof (cases e)
  case (Toggle ev)
  assume "session_inv s"
  then show ?thesis
    using Toggle start_recording_inv [of "fst s" "snd s" ev]
      stop_recording_inv [of "fst s" "snd s" ev]
    by (simp add: toggle_recording_def)
next
  case CopyText
  assume "session_inv s"
  then show ?thesis using CopyText
    by (cases s) (auto simp: session_inv_def open_sessions_def split: option.splits if_splits)
next
  case CopyLatex
  assume "session_inv s"
  then show ?thesis using CopyLatex
    by (cases s) (auto simp: session_inv_def open_sessions_def split: option.splits if_splits)
next
  case (Timer d)
  assume "session_inv s"
  then show ?thesis using Timer
    by (cases s) (auto simp: session_inv_def open_sessions_def split: option.splits if_splits)
next
  case (Frames indata)
  assume "session_inv s"
  then show ?thesis using Frames
    by (cases s)
       (auto simp: session_inv_def open_sessions_def callback_def split: option.splits if_splits)
qed

lemma run_inv: "session_inv s \<Longrightarrow> session_inv (run es s)"
  by (induction es arbitrary: s) (simp_all add: step_inv)

lemma init_inv: "session_inv (MainApplication_init, world_init clip fs)"
  by (simp add: session_inv_def MainApplication_init_def world_init_def open_sessions_def)

lemma inv_at_most_one: "session_inv s \<Longrightarrow> open_sessions (snd s) \<le> 1"
  by (simp add: session_inv_def split: if_splits)

text \<open>
  Claim C7. \<open>start_recording\<close> leaves the buffer empty, whether or not the device
  opens. \<open>callback\<close> keeps what the buffer holds and only adds at its end, so the length
  never goes down, and while the flag is set it adds exactly the block delivered.
  \<open>stop_recording\<close> clears the flag, and from then on no block of frames changes the
  recorder, so the buffer stays the one that was returned. In every run of the window
  from its initial state, at most one stream is started at any time.
\<close>

theorem buffer_lifecycle:
  "audio_data (fst (snd (AudioRecorder_start_recording opn (r, w)))) = [] \<and>
   take (length (audio_data r)) (audio_data (callback r indata)) = audio_data r \<and>
   length (audio_data r) \<le> length (audio_data (callback r indata)) \<and>
   (recording r \<longrightarrow> audio_data (callback r indata) = audio_data r @ indata) \<and>
   (case AudioRecorder_stop_recording (r, w) of
      (res, r1, w1) \<Rightarrow>
        \<not> recording r1 \<and> foldl callback r1 chunks = r1 \<and>
        (\<forall>buf. res = Inr buf \<longrightarrow> audio_data (foldl callback r1 chunks) = buf)) \<and>
   open_sessions (snd (run es (MainApplication_init, world_init clip fs))) \<le> 1"
proof -
  have a: "audio_data (fst (snd (AudioRecorder_start_recording opn (r, w)))) = []"
    by (cases opn) simp_all
  have b: "take (length (audio_data r)) (audio_data (callback r indata)) = audio_data r"
    "length (audio_data r) \<le> length (audio_data (callback r indata))"
    "recording r \<longrightarrow> audio_data (callback r indata) = audio_data r @ indata"
    by (simp_all add: callback_def)
  have c: "case AudioRecorder_stop_recording (r, w) of
      (res, r1, w1) \<Rightarrow>
        \<not> recording r1 \<and> foldl callback r1 chunks = r1 \<and>
        (\<forall>buf. res = Inr buf \<longrightarrow> audio_data (foldl callback r1 chunks) = buf)"
    by (cases "stream r") (simp_all add: deliver_disarmed)
  have d: "open_sessions (snd (run es (MainApplication_init, world_init clip fs))) \<le> 1"
    by (rule inv_at_most_one) (rule run_inv, rule init_inv)
  from a b c d show ?thesis by blast
qed

theorem buffer_lifecycle_witness:
  "recording (recorder (fst recording_state)) \<and>
   audio_data (recorder (fst recording_state)) = [] \<and>
   audio_data (callback (recorder (fst recording_state)) [1, 2]) = [1, 2] \<and>
   open_sessions (snd (run [Toggle (env_of OpenOk (Inr []) (Inr [])), Frames [1, 2]]
                        (MainApplication_init, world_init [] Map.empty))) \<le> 1"
  using buffer_lifecycle [where opn = OpenOk and r = AudioRecorder_init and w = quiet_world
      and indata = "[1, 2]" and chunks = "[[3]]"
      and es = "[Toggle (env_of OpenOk (Inr []) (Inr [])), Frames [1, 2]]"
      and clip = "[]" and fs = Map.empty]
    buffer_lifecycle [where opn = OpenOk and r = "recorder (fst recording_state)"
      and w = quiet_world and indata = "[1, 2]" and chunks = "[[3]]"
      and es = "[]" and clip = "[]" and fs = Map.empty]
  by (simp add: recording_state_def env_of_def quiet_world_def world_init_def
        MainApplication_init_def AudioRecorder_init_def)

section \<open>Calls out of order\<close>

text \<open>
  The recorder of a recording window has its flag set, and \<open>start_recording\<close> on it,
  with the device opening, returns normally: arming while armed is not rejected.
\<close>

theorem arm_while_armed_accepted_counterexample:
  "recording (recorder (fst recording_state)) \<and>
   fst (AudioRecorder_start_recording OpenOk (recorder (fst recording_state), snd recording_state))
     = Inr ()"
  by (simp add: recording_state_def env_of_def)

text \<open>
  Claim C3, as the code has it. \<open>stop_recording\<close> on a recorder whose stream attribute
  was never assigned (no arm before it, or only arms whose constructor raised) fails with
  an \<open>AttributeError\<close>, the flag cleared. \<open>start_recording\<close> has no guard: on a recorder
  whose flag is set it succeeds when the device opens, empties the buffer and opens one
  more stream. It is the controller that keeps the order: with its own flag set, a toggle
  calls \<open>stop_recording\<close>.
\<close>

theorem disarm_unarmed_rejected_arm_unguarded:
  "(stream r = None \<longrightarrow>
      AudioRecorder_stop_recording (r, w) =
        (Inl (AttributeError no_stream_attribute), r\<lparr>recording := False\<rparr>, w)) \<and>
   (recording r \<longrightarrow>
      AudioRecorder_start_recording OpenOk (r, w) =
        (Inr (), r\<lparr>recording := True, audio_data := [], stream := Some (length (streams w))\<rparr>,
         w\<lparr>streams := streams w @ [Started]\<rparr>)) \<and>
   (app_recording (fst s) \<longrightarrow> toggle_recording ev s = stop_recording ev s)"
  by (simp add: toggle_recording_def)

theorem disarm_unarmed_rejected_arm_unguarded_witness:
  "stream AudioRecorder_init = None \<and>
   fst (AudioRecorder_stop_recording (AudioRecorder_init, quiet_world))
     = Inl (AttributeError no_stream_attribute) \<and>
   recording (recorder (fst recording_state)) \<and>
   audio_data (fst (snd (AudioRecorder_start_recording OpenOk
      (callback (recorder (fst recording_state)) [1, 2], snd recording_state)))) = [] \<and>
   app_recording (fst recording_state) \<and>
   toggle_recording (env_of OpenOk (Inr []) (Inr [])) recording_state
     = stop_recording (env_of OpenOk (Inr []) (Inr [])) recording_state"
  using disarm_unarmed_rejected_arm_unguarded
          [where r = AudioRecorder_init and w = quiet_world and s = recording_state
             and ev = "env_of OpenOk (Inr []) (Inr [])"]
        disarm_unarmed_rejected_arm_unguarded
          [where r = "callback (recorder (fst recording_state)) [1, 2]"
             and w = "snd recording_state" and s = recording_state
             and ev = "env_of OpenOk (Inr []) (Inr [])"]
  by (simp add: recording_state_def env_of_def AudioRecorder_init_def MainApplication_init_def
        callback_def)

section \<open>The formatter\<close>

text \<open>
  Claim C2. When the chat endpoint answers the prefix \<open>LaTeX code: \<close> followed by
  \<open>rest\<close>, \<open>text_to_latex\<close> returns \<open>rest\<close>, whatever \<open>rest\<close> is (a second copy of the
  prefix in it stays); when the answer does not start with the prefix, it is returned as
  it is. When the window is stopped with a recorder holding a stream, a transcript \<open>t\<close>
  and such an answer for \<open>t\<close>, the LaTeX widget and the stored LaTeX are \<open>rest\<close>.
\<close>

theorem text_to_latex_strips_one_prefix:
  "(cht said = Inr (''LaTeX code: '' @ rest) \<longrightarrow> text_to_latex cht said = Inr rest) \<and>
   (cht said = Inr resp \<and> \<not> startswith resp ''LaTeX code: '' \<longrightarrow>
      text_to_latex cht said = Inr resp) \<and>
   (stream (recorder a) = Some i \<and>
    transcribe ev (write_wav (audio_data (recorder a))) = Inr t \<and>
    chat ev t = Inr (''LaTeX code: '' @ rest) \<longrightarrow>
      latex_text (fst (stop_recording ev (a, w))) = rest \<and>
      latex_code (fst (stop_recording ev (a, w))) = rest)"
  by (simp add: text_to_latex_def startswith_def process_audio_def)

theorem text_to_latex_strips_one_prefix_witness:
  "text_to_latex (\<lambda>t. Inr ''LaTeX code: x^2'') ''x squared'' = Inr ''x^2'' \<and>
   text_to_latex (\<lambda>t. Inr ''LaTeX code: LaTeX code: x^2'') ''x squared''
     = Inr ''LaTeX code: x^2'' \<and>
   \<not> startswith ''x^2'' ''LaTeX code: '' \<and>
   text_to_latex (\<lambda>t. Inr ''x^2'') ''x squared'' = Inr ''x^2'' \<and>
   stream (recorder (fst recording_state)) = Some 0 \<and>
   latex_text (fst (stop_recording
       (env_of OpenOk (Inr ''A equals tan inverse x'')
          (Inr (''LaTeX code: A = '' @ [CHR 0x5C] @ ''tan^{-1}(x)'')))
       recording_state))
     = ''A = '' @ [CHR 0x5C] @ ''tan^{-1}(x)''"
  using
    text_to_latex_strips_one_prefix
      [where cht = "\<lambda>t. Inr ''LaTeX code: x^2''" and said = "''x squared''"
         and rest = "''x^2''" and resp = "''LaTeX code: x^2''"
         and a = "fst recording_state" and w = "snd recording_state" and i = 0
         and t = "[]" and ev = "env_of OpenOk (Inl (TranscriptionError [])) (Inr [])"]
    text_to_latex_strips_one_prefix
      [where cht = "\<lambda>t. Inr ''LaTeX code: LaTeX code: x^2''" and said = "''x squared''"
         and rest = "''LaTeX code: x^2''" and resp = "[]"
         and a = "fst recording_state" and w = "snd recording_state" and i = 0
         and t = "[]" and ev = "env_of OpenOk (Inl (TranscriptionError [])) (Inr [])"]
    text_to_latex_strips_one_prefix
      [where cht = "\<lambda>t. Inr ''x^2''" and said = "''x squared''"
         and resp = "''x^2''"
         and rest = "''A = '' @ [CHR 0x5C] @ ''tan^{-1}(x)''"
         and a = "fst recording_state" and w = "snd recording_state" and i = 0
         and t = "''A equals tan inverse x''"
         and ev = "env_of OpenOk (Inr ''A equals tan inverse x'')
                     (Inr (''LaTeX code: A = '' @ [CHR 0x5C] @ ''tan^{-1}(x)''))"]
  by (simp add: recording_state_def env_of_def quiet_world_def world_init_def
        MainApplication_init_def AudioRecorder_init_def startswith_def)

section \<open>The toggle\<close>

text \<open>
  While the pipeline runs the controller's flag is already clear and the status line
  reads \<open>Processing audio...\<close>. A toggle on that state starts a recording: it is not
  ignored.
\<close>

theorem toggle_while_processing_counterexample:
  "status_var (fst processing_state) = ''Processing audio...'' \<and>
   \<not> app_recording (fst processing_state) \<and>
   app_recording (fst (toggle_recording (env_of OpenOk (Inr []) (Inr [])) processing_state)) \<and>
   toggle_recording (env_of OpenOk (Inr []) (Inr [])) processing_state \<noteq> processing_state"
proof -
  have 1: "status_var (fst processing_state) = ''Processing audio...''"
    and 2: "\<not> app_recording (fst processing_state)"
    and 3: "app_recording
              (fst (toggle_recording (env_of OpenOk (Inr []) (Inr [])) processing_state))"
    by (simp_all add: processing_state_def recording_state_def env_of_def begin_processing_def
          toggle_recording_def MainApplication_init_def AudioRecorder_init_def)
  from 2 3
  have "toggle_recording (env_of OpenOk (Inr []) (Inr [])) processing_state \<noteq> processing_state"
    by metis
  with 1 2 3 show ?thesis by blast
qed

lemma start_recording_changes: "\<not> app_recording a \<Longrightarrow> start_recording ev (a, w) \<noteq> (a, w)"
proof (cases "open_stream ev")
  case OpenOk
  assume "\<not> app_recording a"
  moreover have "app_recording (fst (start_recording ev (a, w)))" using OpenOk by simp
  ultimately show ?thesis by (metis fst_conv)
next
  case (OpenFails e)
  then have "length (dialogs (snd (start_recording ev (a, w)))) = Suc (length (dialogs w))"
    by (simp add: showerror_def)
  then show ?thesis by (metis n_not_Suc_n snd_conv)
next
  case (StartFails e)
  then have "length (dialogs (snd (start_recording ev (a, w)))) = Suc (length (dialogs w))"
    by (simp add: showerror_def)
  then show ?thesis by (metis n_not_Suc_n snd_conv)
qed

lemma stop_recording_changes: "app_recording a \<Longrightarrow> stop_recording ev (a, w) \<noteq> (a, w)"
proof (cases "stream (recorder a)")
  case None
  then have "length (dialogs (snd (stop_recording ev (a, w)))) = Suc (length (dialogs w))"
    by (simp add: processing_failed_def showerror_def)
  then show ?thesis by (metis n_not_Suc_n snd_conv)
next
  case (Some i)
  assume "app_recording a"
  moreover have "\<not> app_recording (fst (stop_recording ev (a, w)))"
    using Some by (simp add: process_audio_frame begin_processing_def)
  ultimately show ?thesis by (metis fst_conv)
qed

text \<open>
  Claim C4, as the code has it. The controller has one flag and no state of its own for
  the time the pipeline runs. A toggle calls \<open>stop_recording\<close> exactly when the flag is
  set and \<open>start_recording\<close> exactly when it is clear, and no toggle is a no-op: each
  one changes the window or shows a dialog. In the state the controller holds while the
  pipeline runs the flag is clear, so a toggle there is a \<open>start_recording\<close>.
\<close>

theorem toggle_starts_or_stops:
  "toggle_recording ev s =
     (if app_recording (fst s) then stop_recording ev s else start_recording ev s) \<and>
   toggle_recording ev s \<noteq> s \<and>
   \<not> app_recording (begin_processing r a) \<and>
   toggle_recording ev (begin_processing r a, w) = start_recording ev (begin_processing r a, w)"
proof -
  have "toggle_recording ev s \<noteq> s"
    using start_recording_changes [of "fst s" ev "snd s"]
          stop_recording_changes [of "fst s" ev "snd s"]
    by (simp add: toggle_recording_def)
  then show ?thesis
    by (simp add: toggle_recording_def begin_processing_def)
qed

theorem toggle_starts_or_stops_witness:
  "toggle_recording (env_of OpenOk (Inr []) (Inr [])) (MainApplication_init, quiet_world)
     = recording_state \<and>
   recording_state \<noteq> (MainApplication_init, quiet_world) \<and>
   toggle_recording (env_of OpenOk (Inr []) (Inr [])) recording_state
     = stop_recording (env_of OpenOk (Inr []) (Inr [])) recording_state"
  using toggle_starts_or_stops [where ev = "env_of OpenOk (Inr []) (Inr [])"
          and s = "(MainApplication_init, quiet_world)" and r = AudioRecorder_init
          and a = MainApplication_init and w = quiet_world]
        toggle_starts_or_stops [where ev = "env_of OpenOk (Inr []) (Inr [])"
          and s = recording_state and r = AudioRecorder_init
          and a = MainApplication_init and w = quiet_world]
  by (simp add: recording_state_def MainApplication_init_def env_of_def)

section \<open>Failures of the pipeline\<close>

text \<open>
  A recording window that stores and shows \<open>x squared\<close> is stopped; the speech model
  returns \<open>y cubed\<close> and the chat endpoint raises. The stored transcript is now
  \<open>y cubed\<close>, while the transcript widget still shows \<open>x squared\<close>.
\<close>

theorem failed_formatting_changes_transcript_counterexample:
  "transcribed_text (fst shown_state) = ''x squared'' \<and>
   transcribed_text (fst (stop_recording
       (env_of OpenOk (Inr ''y cubed'') (Inl (ServiceError ''quota''))) shown_state))
     = ''y cubed'' \<and>
   trans_text (fst (stop_recording
       (env_of OpenOk (Inr ''y cubed'') (Inl (ServiceError ''quota''))) shown_state))
     = ''x squared''"
  by (simp add: shown_state_def recording_state_def env_of_def process_audio_def
        text_to_latex_def processing_failed_def begin_processing_def)

text \<open>
  Claim C5, as the code has it. The window is stopped with a recorder that holds a
  stream. If the speech model raises, the controller's flag is clear afterwards, both
  widgets and both stored results are as before, and exactly one dialog has been added,
  carrying the exception's message. If the speech model returns \<open>t\<close> and the chat
  endpoint raises, the same holds, but for the stored transcript, which is \<open>t\<close>.
\<close>

theorem failed_processing_returns_to_idle:
  assumes "stream (recorder a) = Some i"
  shows
  "(transcribe ev (write_wav (audio_data (recorder a))) = Inl e \<longrightarrow>
      \<not> app_recording (fst (stop_recording ev (a, w))) \<and>
      trans_text (fst (stop_recording ev (a, w))) = trans_text a \<and>
      latex_text (fst (stop_recording ev (a, w))) = latex_text a \<and>
      transcribed_text (fst (stop_recording ev (a, w))) = transcribed_text a \<and>
      latex_code (fst (stop_recording ev (a, w))) = latex_code a \<and>
      dialogs (snd (stop_recording ev (a, w)))
        = dialogs w @ [(''Error'', ''Processing failed: '' @ str e)]) \<and>
   (transcribe ev (write_wav (audio_data (recorder a))) = Inr t \<and> chat ev t = Inl e \<longrightarrow>
      \<not> app_recording (fst (stop_recording ev (a, w))) \<and>
      trans_text (fst (stop_recording ev (a, w))) = trans_text a \<and>
      latex_text (fst (stop_recording ev (a, w))) = latex_text a \<and>
      transcribed_text (fst (stop_recording ev (a, w))) = t \<and>
      latex_code (fst (stop_recording ev (a, w))) = latex_code a \<and>
      dialogs (snd (stop_recording ev (a, w)))
        = dialogs w @ [(''Error'', ''Processing failed: '' @ str e)])"
  using assms
  by (simp add: process_audio_def text_to_latex_def processing_failed_def
        begin_processing_def showerror_def)

theorem failed_processing_returns_to_idle_witness:
  "stream (recorder (fst shown_state)) = Some 0 \<and>
   app_recording (fst shown_state) \<and>
   \<not> app_recording (fst (stop_recording
       (env_of OpenOk (Inl (TranscriptionError ''model failure'')) (Inr [])) shown_state)) \<and>
   transcribed_text (fst (stop_recording
       (env_of OpenOk (Inl (TranscriptionError ''model failure'')) (Inr [])) shown_state))
     = ''x squared'' \<and>
   dialogs (snd (stop_recording
       (env_of OpenOk (Inl (TranscriptionError ''model failure'')) (Inr [])) shown_state))
     = [(''Error'', ''Processing failed: model failure'')] \<and>
   latex_code (fst (stop_recording
       (env_of OpenOk (Inr ''y cubed'') (Inl (ServiceError ''quota''))) shown_state))
     = ''x^2'' \<and>
   dialogs (snd (stop_recording
       (env_of OpenOk (Inr ''y cubed'') (Inl (ServiceError ''quota''))) shown_state))
     = [(''Error'', ''Processing failed: quota'')]"
  using failed_processing_returns_to_idle
          [where a = "fst shown_state" and w = "snd shown_state" and i = 0
             and ev = "env_of OpenOk (Inl (TranscriptionError ''model failure'')) (Inr [])"
             and e = "TranscriptionError ''model failure''" and t = "[]"]
        failed_processing_returns_to_idle
          [where a = "fst shown_state" and w = "snd shown_state" and i = 0
             and ev = "env_of OpenOk (Inr ''y cubed'') (Inl (ServiceError ''quota''))"
             and e = "ServiceError ''quota''" and t = "''y cubed''"]
  by (simp add: shown_state_def recording_state_def env_of_def quiet_world_def world_init_def
        MainApplication_init_def AudioRecorder_init_def)

section \<open>Failure to open the device\<close>

text \<open>
  The record button is pressed on the initial window and the stream's constructor
  raises. The recorder's flag, clear before, is set afterwards.
\<close>

theorem failed_open_sets_recorder_flag_counterexample:
  "\<not> recording (recorder MainApplication_init) \<and>
   recording (recorder (fst (start_recording
       (env_of (OpenFails (DeviceError ''no input device'')) (Inr []) (Inr []))
       (MainApplication_init, quiet_world))))"
  by (simp add: env_of_def MainApplication_init_def AudioRecorder_init_def)

text \<open>
  Claim C6, as the code has it. When the constructor of the stream or its \<open>start\<close>
  raises, the recorder's \<open>start_recording\<close> hands the exception to its caller; the
  controller changes nothing of the window but the recorder, so its flag stays as it was,
  and shows exactly one dialog with the exception's message. No stream has been started,
  at most one stream object has been created (there is no second attempt), and the buffer
  is empty. The recorder's own flag was set before the stream was opened and stays set.
\<close>

theorem failed_open_stays_idle:
  assumes "open_stream ev = OpenFails e \<or> open_stream ev = StartFails e"
  shows
  "fst (AudioRecorder_start_recording (open_stream ev) (recorder a, w)) = Inl e \<and>
   fst (start_recording ev (a, w)) = a\<lparr>recorder := recorder (fst (start_recording ev (a, w)))\<rparr> \<and>
   app_recording (fst (start_recording ev (a, w))) = app_recording a \<and>
   dialogs (snd (start_recording ev (a, w)))
     = dialogs w @ [(''Error'', ''Failed to start recording: '' @ str e)] \<and>
   open_sessions (snd (start_recording ev (a, w))) = open_sessions w \<and>
   length (streams (snd (start_recording ev (a, w)))) \<le> Suc (length (streams w)) \<and>
   audio_data (recorder (fst (start_recording ev (a, w)))) = [] \<and>
   recording (recorder (fst (start_recording ev (a, w))))"
  using assms by (auto simp: showerror_def open_sessions_def)

theorem failed_open_stays_idle_witness:
  "\<not> app_recording (fst (start_recording
       (env_of (OpenFails (DeviceError ''no input device'')) (Inr []) (Inr []))
       (MainApplication_init, quiet_world))) \<and>
   dialogs (snd (start_recording
       (env_of (OpenFails (DeviceError ''no input device'')) (Inr []) (Inr []))
       (MainApplication_init, quiet_world)))
     = [(''Error'', ''Failed to start recording: no input device'')] \<and>
   open_sessions (snd (start_recording
       (env_of (StartFails (DeviceError ''busy'')) (Inr []) (Inr []))
       (MainApplication_init, quiet_world))) = 0"
  using failed_open_stays_idle
          [where ev = "env_of (OpenFails (DeviceError ''no input device'')) (Inr []) (Inr [])"
             and e = "DeviceError ''no input device''" and a = MainApplication_init
             and w = quiet_world]
        failed_open_stays_idle
          [where ev = "env_of (StartFails (DeviceError ''busy'')) (Inr []) (Inr [])"
             and e = "DeviceError ''busy''" and a = MainApplication_init and w = quiet_world]
  by (simp add: env_of_def quiet_world_def world_init_def MainApplication_init_def
        open_sessions_def)

section \<open>The temporary wave file\<close>

lemma wav_file_format:
  "nchannels (write_wav audio) = 1 \<and> sampwidth (write_wav audio) = 2 \<and>
   framerate (write_wav audio) = 16000 \<and> comptype (write_wav audio) = ''NONE'' \<and>
   length (frames (write_wav audio)) = 2 * length audio"
  by (induction audio) (simp_all add: write_wav_def tobytes_def)

lemma temp_file_removed_on_success:
  "stream (recorder a) = Some i \<Longrightarrow>
   transcribe ev (write_wav (audio_data (recorder a))) = Inr t \<Longrightarrow>
   text_to_latex (chat ev) t = Inr l \<Longrightarrow>
   files (snd (stop_recording ev (a, w))) (tmp_name ev) = None"
  by (simp add: process_audio_def)

text \<open>
  Claim C8. Every session's file is mono, two bytes a sample, 16 kHz and uncompressed
  (\<open>wav_file_format\<close>), and it is deleted when transcription and formatting both succeed
  (\<open>temp_file_removed_on_success\<close>). It is not deleted when one of them raises: the
  exception leaves the block past the \<^verbatim>\<open>os.unlink\<close>. Here the window records the two
  frames 258 and 3 and is stopped, and the speech model raises; the file, absent before,
  is still there afterwards.
\<close>

theorem temp_file_left_after_failed_transcription:
  "files (snd (run [Toggle (env_of OpenOk (Inr []) (Inr [])), Frames [258, 3]]
                 (MainApplication_init, quiet_world))) ''tmp.wav'' = None \<and>
   files (snd (run [Toggle (env_of OpenOk (Inr []) (Inr [])), Frames [258, 3],
                    Toggle (env_of OpenOk (Inl (TranscriptionError ''model failure'')) (Inr []))]
                 (MainApplication_init, quiet_world))) ''tmp.wav''
     = Some \<lparr>nchannels = 1, sampwidth = 2, framerate = 16000, comptype = ''NONE'',
             frames = [2, 1, 3, 0]\<rparr>"
  by (simp add: env_of_def quiet_world_def world_init_def MainApplication_init_def
        AudioRecorder_init_def toggle_recording_def open_sessions_def callback_def
        begin_processing_def process_audio_def processing_failed_def showerror_def
        write_wav_def tobytes_def)

section \<open>The stored results\<close>

lemma process_audio_no_transcript:
  "\<forall>f t. transcribe ev f \<noteq> Inr t \<Longrightarrow>
   transcribed_text (fst (process_audio ev audio s)) = transcribed_text (fst s) \<and>
   latex_code (fst (process_audio ev audio s)) = latex_code (fst s)"
  by (cases "transcribe ev (write_wav audio)")
     (simp_all add: process_audio_def processing_failed_def)

lemma process_audio_no_latex:
  "\<forall>t l. chat ev t \<noteq> Inr l \<Longrightarrow>
   latex_code (fst (process_audio ev audio s)) = latex_code (fst s)"
proof (cases "transcribe ev (write_wav audio)")
  case (Inl e)
  then show ?thesis by (simp add: process_audio_def processing_failed_def)
next
  case (Inr t)
  assume "\<forall>t l. chat ev t \<noteq> Inr l"
  then obtain e where "chat ev t = Inl e" by (cases "chat ev t") auto
  with Inr show ?thesis
    by (simp add: process_audio_def processing_failed_def text_to_latex_def)
qed

lemma start_recording_stored:
  "transcribed_text (fst (start_recording ev s)) = transcribed_text (fst s) \<and>
   latex_code (fst (start_recording ev s)) = latex_code (fst s)"
  by (cases s; cases "open_stream ev") simp_all

lemma stop_recording_no_transcript:
  "\<forall>f t. transcribe ev f \<noteq> Inr t \<Longrightarrow>
   transcribed_text (fst (stop_recording ev s)) = transcribed_text (fst s) \<and>
   latex_code (fst (stop_recording ev s)) = latex_code (fst s)"
  by (cases s; cases "stream (recorder (fst s))")
     (simp_all add: process_audio_no_transcript processing_failed_def begin_processing_def)

lemma stop_recording_no_latex:
  "\<forall>t l. chat ev t \<noteq> Inr l \<Longrightarrow>
   latex_code (fst (stop_recording ev s)) = latex_code (fst s)"
  by (cases s; cases "stream (recorder (fst s))")
     (simp_all add: process_audio_no_latex processing_failed_def begin_processing_def)

lemma step_other_stored:
  "\<forall>ev. e \<noteq> Toggle ev \<Longrightarrow>
   transcribed_text (fst (step e s)) = transcribed_text (fst s) \<and>
   latex_code (fst (step e s)) = latex_code (fst s)"
  by (cases e; cases s) simp_all

lemma step_no_transcript:
  assumes "\<forall>ev f t. e = Toggle ev \<longrightarrow> transcribe ev f \<noteq> Inr t"
  shows "transcribed_text (fst (step e s)) = transcribed_text (fst s) \<and>
         latex_code (fst (step e s)) = latex_code (fst s)"
proof (cases e)
  case (Toggle ev)
  with assms have "\<forall>f t. transcribe ev f \<noteq> Inr t" by simp
  then show ?thesis
    using Toggle start_recording_stored [of ev s] stop_recording_no_transcript [of ev s]
    by (simp add: toggle_recording_def)
qed (use step_other_stored [of e s] in simp_all)

lemma step_no_latex:
  assumes "\<forall>ev t l. e = Toggle ev \<longrightarrow> chat ev t \<noteq> Inr l"
  shows "latex_code (fst (step e s)) = latex_code (fst s)"
proof (cases e)
  case (Toggle ev)
  with assms have "\<forall>t l. chat ev t \<noteq> Inr l" by simp
  then show ?thesis
    using Toggle start_recording_stored [of ev s] stop_recording_no_latex [of ev s]
    by (simp add: toggle_recording_def)
qed (use step_other_stored [of e s] in simp_all)

lemma run_no_transcript:
  "\<forall>ev f t. Toggle ev \<in> set es \<longrightarrow> transcribe ev f \<noteq> Inr t \<Longrightarrow>
   transcribed_text (fst (run es s)) = transcribed_text (fst s) \<and>
   latex_code (fst (run es s)) = latex_code (fst s)"
proof (induction es arbitrary: s)
  case Nil
  then show ?case by simp
next
  case (Cons e es)
  from Cons.prems have "\<forall>ev f t. e = Toggle ev \<longrightarrow> transcribe ev f \<noteq> Inr t" by simp
  then have here: "transcribed_text (fst (step e s)) = transcribed_text (fst s) \<and>
      latex_code (fst (step e s)) = latex_code (fst s)"
    by (rule step_no_transcript)
  from Cons.prems have "\<forall>ev f t. Toggle ev \<in> set es \<longrightarrow> transcribe ev f \<noteq> Inr t" by simp
  from Cons.IH [OF this, of "step e s"] here show ?case by simp
qed

lemma run_no_latex:
  "\<forall>ev t l. Toggle ev \<in> set es \<longrightarrow> chat ev t \<noteq> Inr l \<Longrightarrow>
   latex_code (fst (run es s)) = latex_code (fst s)"
proof (induction es arbitrary: s)
  case Nil
  then show ?case by simp
next
  case (Cons e es)
  from Cons.prems have "\<forall>ev t l. e = Toggle ev \<longrightarrow> chat ev t \<noteq> Inr l" by simp
  then have here: "latex_code (fst (step e s)) = latex_code (fst s)"
    by (rule step_no_latex)
  from Cons.prems have "\<forall>ev t l. Toggle ev \<in> set es \<longrightarrow> chat ev t \<noteq> Inr l" by simp
  from Cons.IH [OF this, of "step e s"] here show ?case by simp
qed

lemma clipboard_after_copy:
  "clipboard (snd (copy_text s)) = transcribed_text (fst s) \<and>
   clipboard (snd (copy_latex s)) = latex_code (fst s)"
  by (cases s) simp

text \<open>
  From the initial window the record button is pressed twice; the speech model returns
  \<open>x squared\<close> and the chat endpoint raises. The session has ended in the error
  handler, no session has succeeded, and the stored transcript is \<open>x squared\<close>: that is
  what the copy action then puts on the clipboard.
\<close>

theorem transcript_stored_without_success_counterexample:
  "transcribed_text (fst (run
       [Toggle (env_of OpenOk (Inr ''x squared'') (Inl (ServiceError ''quota''))),
        Toggle (env_of OpenOk (Inr ''x squared'') (Inl (ServiceError ''quota'')))]
       (MainApplication_init, quiet_world))) = ''x squared'' \<and>
   status_var (fst (run
       [Toggle (env_of OpenOk (Inr ''x squared'') (Inl (ServiceError ''quota''))),
        Toggle (env_of OpenOk (Inr ''x squared'') (Inl (ServiceError ''quota'')))]
       (MainApplication_init, quiet_world))) = ''Error occurred'' \<and>
   clipboard (snd (run
       [Toggle (env_of OpenOk (Inr ''x squared'') (Inl (ServiceError ''quota''))),
        Toggle (env_of OpenOk (Inr ''x squared'') (Inl (ServiceError ''quota''))),
        CopyText]
       (MainApplication_init, quiet_world))) = ''x squared''"
  by (simp add: env_of_def quiet_world_def world_init_def MainApplication_init_def
        AudioRecorder_init_def toggle_recording_def begin_processing_def process_audio_def
        processing_failed_def showerror_def text_to_latex_def)

text \<open>
  Claim C9, as the code has it. In the initial window the stored transcript and the
  stored LaTeX are empty, and either copy action puts the empty string on the clipboard.
  In any run from the initial window, both stay empty as long as no transcription has
  returned, and the stored LaTeX stays empty as long as no call of the chat endpoint has
  returned; the copy actions then still copy the empty string.
\<close>

theorem stored_results_empty_until_produced:
  "transcribed_text MainApplication_init = [] \<and> latex_code MainApplication_init = [] \<and>
   clipboard (snd (copy_text (MainApplication_init, w))) = [] \<and>
   clipboard (snd (copy_latex (MainApplication_init, w))) = [] \<and>
   ((\<forall>ev f t. Toggle ev \<in> set es \<longrightarrow> transcribe ev f \<noteq> Inr t) \<longrightarrow>
      transcribed_text (fst (run es (MainApplication_init, w))) = [] \<and>
      latex_code (fst (run es (MainApplication_init, w))) = [] \<and>
      clipboard (snd (copy_text (run es (MainApplication_init, w)))) = [] \<and>
      clipboard (snd (copy_latex (run es (MainApplication_init, w)))) = []) \<and>
   ((\<forall>ev t l. Toggle ev \<in> set es \<longrightarrow> chat ev t \<noteq> Inr l) \<longrightarrow>
      latex_code (fst (run es (MainApplication_init, w))) = [] \<and>
      clipboard (snd (copy_latex (run es (MainApplication_init, w)))) = [])"
proof -
  have init: "transcribed_text MainApplication_init = []" "latex_code MainApplication_init = []"
    by (simp_all add: MainApplication_init_def)
  have 1: "(\<forall>ev f t. Toggle ev \<in> set es \<longrightarrow> transcribe ev f \<noteq> Inr t) \<longrightarrow>
      transcribed_text (fst (run es (MainApplication_init, w))) = [] \<and>
      latex_code (fst (run es (MainApplication_init, w))) = []"
    using run_no_transcript [of es "(MainApplication_init, w)"] init by simp
  have 2: "(\<forall>ev t l. Toggle ev \<in> set es \<longrightarrow> chat ev t \<noteq> Inr l) \<longrightarrow>
      latex_code (fst (run es (MainApplication_init, w))) = []"
    using run_no_latex [of es "(MainApplication_init, w)"] init by simp
  from init 1 2 show ?thesis
    by (simp add: clipboard_after_copy)
qed

theorem stored_results_empty_until_produced_witness:
  "clipboard (snd (copy_text (MainApplication_init, quiet_world\<lparr>clipboard := ''before''\<rparr>))) = [] \<and>
   transcribed_text (fst (run
       [Toggle (env_of OpenOk (Inl (TranscriptionError ''model failure'')) (Inr ''x^2'')),
        Frames [1, 2],
        Toggle (env_of OpenOk (Inl (TranscriptionError ''model failure'')) (Inr ''x^2''))]
       (MainApplication_init, quiet_world\<lparr>clipboard := ''before''\<rparr>))) = [] \<and>
   clipboard (snd (copy_latex (run
       [Toggle (env_of OpenOk (Inr ''x squared'') (Inl (ServiceError ''quota''))),
        Toggle (env_of OpenOk (Inr ''x squared'') (Inl (ServiceError ''quota'')))]
       (MainApplication_init, quiet_world\<lparr>clipboard := ''before''\<rparr>)))) = []"
proof -
  have h1: "\<forall>ev f t. Toggle ev \<in> set
       [Toggle (env_of OpenOk (Inl (TranscriptionError ''model failure'')) (Inr ''x^2'')),
        Frames [1, 2],
        Toggle (env_of OpenOk (Inl (TranscriptionError ''model failure'')) (Inr ''x^2''))]
      \<longrightarrow> transcribe ev f \<noteq> Inr t"
    by (auto simp: env_of_def)
  have h2: "\<forall>ev t l. Toggle ev \<in> set
       [Toggle (env_of OpenOk (Inr ''x squared'') (Inl (ServiceError ''quota''))),
        Toggle (env_of OpenOk (Inr ''x squared'') (Inl (ServiceError ''quota'')))]
      \<longrightarrow> chat ev t \<noteq> Inr l"
    by (auto simp: env_of_def)
  show ?thesis
    using h1 h2
      stored_results_empty_until_produced
        [where w = "quiet_world\<lparr>clipboard := ''before''\<rparr>" and es =
          "[Toggle (env_of OpenOk (Inl (TranscriptionError ''model failure'')) (Inr ''x^2'')),
            Frames [1, 2],
            Toggle (env_of OpenOk (Inl (TranscriptionError ''model failure'')) (Inr ''x^2''))]"]
      stored_results_empty_until_produced
        [where w = "quiet_world\<lparr>clipboard := ''before''\<rparr>" and es =
          "[Toggle (env_of OpenOk (Inr ''x squared'') (Inl (ServiceError ''quota''))),
            Toggle (env_of OpenOk (Inr ''x squared'') (Inl (ServiceError ''quota'')))]"]
    by blast
qed

section \<open>The copy actions\<close>

text \<open>
  Claim C10. \<open>copy_text\<close> and \<open>copy_latex\<close> return the window they were given with a
  new status line and nothing else changed: the stored transcript, the stored LaTeX, the
  recording flag and the recorder (its flag and its buffer) are as before. The clipboard
  is part of the world, not of the window.
\<close>

theorem copy_changes_only_status:
  "fst (copy_text (a, w)) = a\<lparr>status_var := ''Text copied to clipboard!''\<rparr> \<and>
   fst (copy_latex (a, w)) = a\<lparr>status_var := ''LaTeX copied to clipboard!''\<rparr> \<and>
   transcribed_text (fst (copy_text (a, w))) = transcribed_text a \<and>
   latex_code (fst (copy_text (a, w))) = latex_code a \<and>
   app_recording (fst (copy_text (a, w))) = app_recording a \<and>
   recorder (fst (copy_text (a, w))) = recorder a \<and>
   transcribed_text (fst (copy_latex (a, w))) = transcribed_text a \<and>
   latex_code (fst (copy_latex (a, w))) = latex_code a \<and>
   app_recording (fst (copy_latex (a, w))) = app_recording a \<and>
   recorder (fst (copy_latex (a, w))) = recorder a"
  by simp

theorem copy_changes_only_status_witness:
  "fst (copy_text (MainApplication_init, quiet_world)) =
     MainApplication_init\<lparr>status_var := ''Text copied to clipboard!''\<rparr> \<and>
   audio_data (recorder (fst (copy_latex (MainApplication_init, quiet_world)))) = []"
  using copy_changes_only_status [where a = MainApplication_init and w = quiet_world]
  by (simp add: MainApplication_init_def AudioRecorder_init_def)

end
